theory Spec2Isabelle
  imports Complex_Main
begin

section \<open>Vectors and scene nodes\<close>

text \<open>
  Modelled from the spec: \<open>UM.Math.Vector\<close>, which is not among the sources, "a
  3-component floating-point vector type supporting component access, arithmetic,
  negation". The components are idealised as real numbers: comparisons, \<open>abs\<close> and
  negation are exact on floats too, the rounding, absorption and overflow of \<open>+\<close>, \<open>*\<close>
  and \<open>/\<close> are not modelled. No result below rests on a law of real arithmetic that
  floating-point arithmetic lacks: the general statements compare values or repeat the
  code's own expression, operation by operation, and the concrete cases are traced on
  values where the operations coincide with the float ones or differ only by a rounding
  error that changes no comparison. The Python fields \<open>x\<close>, \<open>y\<close>, \<open>z\<close> are the selectors
  \<open>vx\<close>, \<open>vy\<close>, \<open>vz\<close>.
\<close>

datatype Vector = Vector (vx: real) (vy: real) (vz: real)

text \<open>Modelled from the spec: \<open>Vector + Vector\<close>, component-wise.\<close>

definition vec_add :: "Vector \<Rightarrow> Vector \<Rightarrow> Vector" where
  "vec_add a b = Vector (vx a + vx b) (vy a + vy b) (vz a + vz b)"

text \<open>Modelled from the spec: \<open>Vector * Vector\<close>, component-wise.\<close>

definition vec_mul :: "Vector \<Rightarrow> Vector \<Rightarrow> Vector" where
  "vec_mul a b = Vector (vx a * vx b) (vy a * vy b) (vz a * vz b)"

text \<open>Modelled from the spec: \<open>float * Vector\<close>, the scalar multiple.\<close>

definition vec_smul :: "real \<Rightarrow> Vector \<Rightarrow> Vector" where
  "vec_smul k a = Vector (k * vx a) (k * vy a) (k * vz a)"

text \<open>Modelled from the spec: \<open>-Vector\<close>, the unary negation.\<close>

definition vec_neg :: "Vector \<Rightarrow> Vector" where
  "vec_neg a = Vector (- vx a) (- vy a) (- vz a)"

text \<open>
  Modelled from the spec: \<open>UM.Scene.SceneNode\<close>, which is not among the sources, "an
  entity in a scene hierarchy possessing a local transform (position, rotation, scale)".
  The node modelled is a root node without shear, so the parent's and the world's frame
  coincide and the scale matrix is diagonal (the spec's precondition).
\<close>

datatype TransformSpace = Local | Parent | World

record Transformation =
  t_position :: Vector
  t_orientation :: "real \<times> real \<times> real \<times> real"
  t_scale :: Vector

record SceneNode =
  transformation :: Transformation

text \<open>Modelled from the spec: \<open>SceneNode.getLocalTransformation\<close> returns a snapshot, a value.\<close>

definition getLocalTransformation :: "SceneNode \<Rightarrow> Transformation" where
  "getLocalTransformation n = transformation n"

text \<open>
  Modelled from the spec: \<open>SceneNode.setTransformation\<close>, "node's transform is fully
  overwritten".
\<close>

definition setTransformation :: "SceneNode \<Rightarrow> Transformation \<Rightarrow> SceneNode" where
  "setTransformation n t = n\<lparr>transformation := t\<rparr>"

text \<open>Modelled from the spec: \<open>SceneNode.getScale\<close>, the scale of the node's transform.\<close>

definition getScale :: "SceneNode \<Rightarrow> Vector" where
  "getScale n = t_scale (transformation n)"

text \<open>
  Modelled from the spec: \<open>SceneNode.setScale\<close>, a "straightforward replace" of the scale,
  in every frame since the node is a root node.
\<close>

definition setScale :: "SceneNode \<Rightarrow> Vector \<Rightarrow> TransformSpace \<Rightarrow> SceneNode" where
  "setScale n v space = n\<lparr>transformation := (transformation n)\<lparr>t_scale := v\<rparr>\<rparr>"

text \<open>
  Modelled from the spec: \<open>SceneNode.setPosition\<close> ("translate the node to"): the node is
  placed at the given position.
\<close>

definition setPosition :: "SceneNode \<Rightarrow> Vector \<Rightarrow> SceneNode" where
  "setPosition n p = n\<lparr>transformation := (transformation n)\<lparr>t_position := p\<rparr>\<rparr>"

text \<open>
  Modelled from the spec: \<open>SceneNode.scale\<close>, the "incremental scale-by operation in a
  chosen space". It multiplies the scale component-wise; in the parent's or the world's
  frame it scales about that frame's origin, so the node's position is multiplied too
  (this is why a pivot "requires a translate-scale-translate sequence").
\<close>

definition scale :: "SceneNode \<Rightarrow> Vector \<Rightarrow> TransformSpace \<Rightarrow> SceneNode" where
  "scale n f space =
     (case space of
        Local \<Rightarrow> n\<lparr>transformation := (transformation n)
                  \<lparr>t_scale := vec_mul (t_scale (transformation n)) f\<rparr>\<rparr>
      | _ \<Rightarrow> n\<lparr>transformation := (transformation n)
                  \<lparr>t_position := vec_mul (t_position (transformation n)) f,
                   t_scale := vec_mul (t_scale (transformation n)) f\<rparr>\<rparr>)"

text \<open>
  The operation holds a reference to its node and mutates the node through it: nodes
  live in a store, addressed by their reference.
\<close>

type_synonym scene = "nat \<Rightarrow> SceneNode"

section \<open>Python arithmetic\<close>

datatype py_error = ZeroDivisionError

text \<open>
  Division of Python floats, which the components of a vector are taken to be: a zero
  divisor raises.
\<close>

definition py_div :: "real \<Rightarrow> real \<Rightarrow> py_error + real" where
  "py_div a b = (if b = 0 then Inl ZeroDivisionError else Inr (a / b))"

text \<open>The builtin \<open>round(x, ndigits)\<close>: to the nearest multiple of \<open>10 ^ -ndigits\<close>, ties to even.\<close>

definition py_round :: "real \<Rightarrow> nat \<Rightarrow> real" where
  "py_round a ndigits =
     (let y = a * 10 ^ ndigits;
          f = \<lfloor>y\<rfloor>;
          r = y - of_int f;
          k = (if r < 1 / 2 then f
               else if 1 / 2 < r then f + 1
               else if even f then f else f + 1)
      in of_int k / 10 ^ ndigits)"

section \<open>ScaleOperation\<close>

record ScaleOperation =
  op_node :: nat
  op_old_transformation :: Transformation
  op_set_scale :: bool
  op_add_scale :: bool
  op_relative_scale :: bool
  op_scale_around_point :: Vector
  op_snap :: bool
  op_scale :: Vector
  op_min_scale :: real

text \<open>The keyword arguments of the constructor; \<open>None\<close> is a keyword that is not passed.\<close>

record kwargs =
  kw_set_scale :: "bool option"
  kw_add_scale :: "bool option"
  kw_relative_scale :: "bool option"
  kw_scale_around_point :: "Vector option"
  kw_snap :: "bool option"

definition no_kwargs :: kwargs where
  "no_kwargs = \<lparr>kw_set_scale = None, kw_add_scale = None, kw_relative_scale = None,
                 kw_scale_around_point = None, kw_snap = None\<rparr>"

definition kwargs_get :: "'a option \<Rightarrow> 'a \<Rightarrow> 'a" where
  "kwargs_get v d = (case v of None \<Rightarrow> d | Some a \<Rightarrow> a)"

text \<open>\<open>__init__\<close>: the node's local transformation is read from the scene as it is now.\<close>

definition ScaleOperation_init :: "scene \<Rightarrow> nat \<Rightarrow> Vector \<Rightarrow> kwargs \<Rightarrow> ScaleOperation" where
  "ScaleOperation_init sc node scl kw =
     \<lparr>op_node = node,
      op_old_transformation = getLocalTransformation (sc node),
      op_set_scale = kwargs_get (kw_set_scale kw) False,
      op_add_scale = kwargs_get (kw_add_scale kw) False,
      op_relative_scale = kwargs_get (kw_relative_scale kw) False,
      op_scale_around_point = kwargs_get (kw_scale_around_point kw) (Vector 0 0 0),
      op_snap = kwargs_get (kw_snap kw) False,
      op_scale = scl,
      op_min_scale = 0.01\<rparr>"

definition undo :: "ScaleOperation \<Rightarrow> scene \<Rightarrow> scene" where
  "undo op sc = sc(op_node op := setTransformation (sc (op_node op)) (op_old_transformation op))"

subsection \<open>The relative branch of redo, block by block\<close>

text \<open>
  Lines 51 to 54: a scale with three equal components is multiplied by the ratio vector,
  in place (\<open>self._scale *= ratio_vector\<close>). The division \<open>1 / (x + y + z)\<close> raises on zero.
\<close>

definition fix_direction :: "ScaleOperation \<Rightarrow> SceneNode \<Rightarrow> py_error + ScaleOperation" where
  "fix_direction op n =
     (if vz (op_scale op) = vy (op_scale op) \<and> vy (op_scale op) = vx (op_scale op) then
        (case py_div 1 (vx (getScale n) + vy (getScale n) + vz (getScale n)) of
           Inl e \<Rightarrow> Inl e
         | Inr q \<Rightarrow>
             (let ratio = q * 3;
                  ratio_vector = vec_smul ratio (getScale n)
              in Inr (op\<lparr>op_scale := vec_mul (op_scale op) ratio_vector\<rparr>)))
      else Inr op)"

text \<open>Lines 55 to 66, one axis: the magnitude that keeps the sign of the current scale.\<close>

definition combine_axis :: "real \<Rightarrow> real \<Rightarrow> real" where
  "combine_axis cur d = (if cur > 0 then \<bar>cur + d\<bar> else - \<bar>cur - d\<bar>)"

definition combine :: "Vector \<Rightarrow> Vector \<Rightarrow> Vector" where
  "combine cur d =
     Vector (combine_axis (vx cur) (vx d)) (combine_axis (vy cur) (vy d))
            (combine_axis (vz cur) (vz d))"

text \<open>Lines 70 to 75, one axis: a factor that is not zero is divided by the current scale.\<close>

definition normalise_axis :: "real \<Rightarrow> real \<Rightarrow> py_error + real" where
  "normalise_axis f cur = (if f \<noteq> 0 then py_div f cur else Inr f)"

definition normalise :: "Vector \<Rightarrow> Vector \<Rightarrow> py_error + Vector" where
  "normalise f cur =
     (case normalise_axis (vx f) (vx cur) of
        Inl e \<Rightarrow> Inl e
      | Inr fx \<Rightarrow>
          (case normalise_axis (vy f) (vy cur) of
             Inl e \<Rightarrow> Inl e
           | Inr fy \<Rightarrow>
               (case normalise_axis (vz f) (vz cur) of
                  Inl e \<Rightarrow> Inl e
                | Inr fz \<Rightarrow> Inr (Vector fx fy fz))))"

text \<open>Lines 77 to 79.\<close>

definition scale_around :: "SceneNode \<Rightarrow> Vector \<Rightarrow> Vector \<Rightarrow> SceneNode" where
  "scale_around n p f = setPosition (scale (setPosition n (vec_neg p)) f Parent) p"

text \<open>Lines 81 to 87, one axis: snapping rounds where the factor is not 1.\<close>

definition snap_axis :: "bool \<Rightarrow> real \<Rightarrow> real \<Rightarrow> real" where
  "snap_axis sn f v = (if sn then (if f \<noteq> 1 then py_round v 2 else v) else v)"

definition snap_scale :: "bool \<Rightarrow> Vector \<Rightarrow> Vector \<Rightarrow> Vector" where
  "snap_scale sn f v =
     Vector (snap_axis sn (vx f) (vx v)) (snap_axis sn (vy f) (vy v))
            (snap_axis sn (vz f) (vz v))"

text \<open>
  Lines 89 to 103, one axis: the check for a value that is not negative runs first, the
  check for a mirrored value runs on its result.
\<close>

definition enforce_min_axis :: "real \<Rightarrow> real \<Rightarrow> real" where
  "enforce_min_axis m v =
     (let v1 = (if v < m \<and> v \<ge> 0 then m else v)
      in if v1 > - m \<and> v1 \<le> 0 then - m else v1)"

definition enforce_min :: "real \<Rightarrow> Vector \<Rightarrow> Vector" where
  "enforce_min m v =
     Vector (enforce_min_axis m (vx v)) (enforce_min_axis m (vy v))
            (enforce_min_axis m (vz v))"

text \<open>
  The value that line 104 hands to \<open>setScale\<close>, from the normalised factor and the node
  as it is before line 77.
\<close>

definition new_scale :: "ScaleOperation \<Rightarrow> Vector \<Rightarrow> SceneNode \<Rightarrow> Vector" where
  "new_scale op f n =
     enforce_min (op_min_scale op)
       (snap_scale (op_snap op) f (getScale (scale_around n (op_scale_around_point op) f)))"

text \<open>
  Lines 48 to 104. An exception leaves the operation and the scene as they are when it
  is raised: \<open>Inl\<close> carries both.
\<close>

definition redo_relative ::
  "ScaleOperation \<Rightarrow> scene \<Rightarrow> (py_error \<times> ScaleOperation \<times> scene) + (ScaleOperation \<times> scene)" where
  "redo_relative op sc =
     (let n = sc (op_node op) in
      case fix_direction op n of
        Inl e \<Rightarrow> Inl (e, op, sc)
      | Inr op1 \<Rightarrow>
          (let scale_factor = combine (getScale n) (op_scale op1);
               current_scale = getScale n
           in case normalise scale_factor current_scale of
                Inl e \<Rightarrow> Inl (e, op1, sc)
              | Inr f \<Rightarrow>
                  (let n1 = scale_around n (op_scale_around_point op1) f
                   in Inr (op1, sc(op_node op := setScale n1 (new_scale op1 f n) World)))))"

subsection \<open>redo, mergeWith\<close>

definition redo ::
  "ScaleOperation \<Rightarrow> scene \<Rightarrow> (py_error \<times> ScaleOperation \<times> scene) + (ScaleOperation \<times> scene)" where
  "redo op sc =
     (let n = sc (op_node op) in
      if op_set_scale op then
        Inr (op, sc(op_node op := setScale n (op_scale op) World))
      else if op_add_scale op then
        Inr (op, sc(op_node op := setScale n (vec_add (getScale n) (op_scale op)) Local))
      else if op_relative_scale op then
        redo_relative op sc
      else
        Inr (op, sc(op_node op := scale n (op_scale op) World)))"

text \<open>The operation and the scene after a call of redo, whether it returned or raised.\<close>

definition after :: "(py_error \<times> ScaleOperation \<times> scene) + (ScaleOperation \<times> scene)
    \<Rightarrow> ScaleOperation \<times> scene" where
  "after r = (case r of Inl (e, st) \<Rightarrow> st | Inr st \<Rightarrow> st)"

definition redo_step :: "ScaleOperation \<times> scene \<Rightarrow> ScaleOperation \<times> scene" where
  "redo_step st = after (redo (fst st) (snd st))"

definition undo_step :: "ScaleOperation \<times> scene \<Rightarrow> ScaleOperation \<times> scene" where
  "undo_step st = (fst st, undo (fst st) (snd st))"

text \<open>
  The operand of mergeWith is any operation of the undo stack; \<open>None\<close> is the \<open>False\<close>
  that mergeWith returns when it does not merge.
\<close>

datatype operation = ScaleOp ScaleOperation | OtherOperation

definition mergeWith :: "scene \<Rightarrow> ScaleOperation \<Rightarrow> operation \<Rightarrow> ScaleOperation option" where
  "mergeWith sc self other =
     (case other of
        OtherOperation \<Rightarrow> None
      | ScaleOp oth \<Rightarrow>
          if op_node oth \<noteq> op_node self then None
          else if op_set_scale oth \<and> \<not> op_set_scale self then None
          else if op_add_scale oth \<and> \<not> op_add_scale self then None
          else Some ((ScaleOperation_init sc (op_node self) (op_scale self) no_kwargs)
                       \<lparr>op_old_transformation := op_old_transformation oth\<rparr>))"

subsection \<open>Concrete scenes\<close>

text \<open>A node without rotation, at a position and with a scale; a scene of such nodes.\<close>

definition plain_node :: "Vector \<Rightarrow> Vector \<Rightarrow> SceneNode" where
  "plain_node p s =
     \<lparr>transformation = \<lparr>t_position = p, t_orientation = (0, 0, 0, 1), t_scale = s\<rparr>\<rparr>"

definition plain_scene :: "Vector \<Rightarrow> Vector \<Rightarrow> scene" where
  "plain_scene p s = (\<lambda>k. plain_node p s)"

definition relative_kwargs :: "bool \<Rightarrow> kwargs" where
  "relative_kwargs sn = no_kwargs\<lparr>kw_relative_scale := Some True, kw_snap := Some sn\<rparr>"

text \<open>
  The mode of an operation is what the chain of tests in redo makes of its three flags:
  the relative branch runs when neither \<open>set_scale\<close> nor \<open>add_scale\<close> is set.
\<close>

definition relative_mode :: "ScaleOperation \<Rightarrow> bool" where
  "relative_mode op \<longleftrightarrow> \<not> op_set_scale op \<and> \<not> op_add_scale op \<and> op_relative_scale op"

section \<open>Evaluation and elementary facts\<close>

lemmas eval_defs = plain_scene_def plain_node_def relative_kwargs_def redo_def redo_relative_def
      fix_direction_def combine_def combine_axis_def normalise_def normalise_axis_def py_div_def
      scale_around_def snap_scale_def snap_axis_def enforce_min_def enforce_min_axis_def
      new_scale_def ScaleOperation_init_def kwargs_get_def getScale_def setScale_def
      setPosition_def scale_def vec_mul_def vec_smul_def vec_neg_def vec_add_def
      getLocalTransformation_def Let_def no_kwargs_def after_def py_round_def relative_mode_def
      mergeWith_def

lemma getScale_setScale: "getScale (setScale n v space) = v"
  by (simp add: getScale_def setScale_def)

lemma redo_relative_mode: "relative_mode op \<Longrightarrow> redo op sc = redo_relative op sc"
  by (simp add: relative_mode_def redo_def)

section \<open>What redo and undo keep\<close>

lemma fix_direction_keeps:
  assumes "fix_direction op n = Inr op1"
  shows "op1 = op\<lparr>op_scale := op_scale op1\<rparr>"
  using assms by (auto simp: fix_direction_def Let_def split: if_splits sum.splits)

lemma redo_relative_keeps:
  assumes "after (redo_relative op sc) = (op', sc')"
  shows "op' = op\<lparr>op_scale := op_scale op'\<rparr>"
    and "\<And>k. k \<noteq> op_node op \<Longrightarrow> sc' k = sc k"
  using assms
  by (auto simp: redo_relative_def after_def Let_def split: sum.splits dest: fix_direction_keeps)

lemma redo_keeps:
  assumes "after (redo op sc) = (op', sc')"
  shows "op' = op\<lparr>op_scale := op_scale op'\<rparr>"
    and "\<And>k. k \<noteq> op_node op \<Longrightarrow> sc' k = sc k"
proof -
  show "op' = op\<lparr>op_scale := op_scale op'\<rparr>"
  proof (cases "\<not> op_set_scale op \<and> \<not> op_add_scale op \<and> op_relative_scale op")
    case True
    with assms have "after (redo_relative op sc) = (op', sc')" by (simp add: redo_def)
    then show ?thesis by (rule redo_relative_keeps(1))
  next
    case False
    with assms have "op' = op" by (auto simp: redo_def after_def Let_def split: if_splits)
    then show ?thesis by simp
  qed
  fix k assume k: "k \<noteq> op_node op"
  show "sc' k = sc k"
  proof (cases "\<not> op_set_scale op \<and> \<not> op_add_scale op \<and> op_relative_scale op")
    case True
    with assms have "after (redo_relative op sc) = (op', sc')" by (simp add: redo_def)
    then show ?thesis using k by (rule redo_relative_keeps(2))
  next
    case False
    with assms k show ?thesis by (auto simp: redo_def after_def Let_def split: if_splits)
  qed
qed

lemma redo_step_keeps:
  "op_node (fst (redo_step st)) = op_node (fst st) \<and>
   op_old_transformation (fst (redo_step st)) = op_old_transformation (fst st)"
proof -
  obtain op' sc' where a: "after (redo (fst st) (snd st)) = (op', sc')"
    by (cases "after (redo (fst st) (snd st))")
  from redo_keeps(1)[OF a]
  have "op_node op' = op_node (fst st) \<and>
        op_old_transformation op' = op_old_transformation (fst st)"
    by (metis ScaleOperation.select_convs(1,2) ScaleOperation.surjective
        ScaleOperation.update_convs(8))
  then show ?thesis using a by (simp add: redo_step_def)
qed

lemma redo_steps_keep:
  "op_node (fst ((redo_step ^^ m) st)) = op_node (fst st) \<and>
   op_old_transformation (fst ((redo_step ^^ m) st)) = op_old_transformation (fst st)"
  by (induction m) (simp_all add: redo_step_keeps)

lemma undo_reads_back:
  "getLocalTransformation (undo op sc (op_node op)) = op_old_transformation op"
  by (simp add: undo_def getLocalTransformation_def setTransformation_def)

lemma undo_undo: "undo op (undo op sc) = undo op sc"
  by (simp add: undo_def setTransformation_def)

lemma undo_step_twice: "undo_step (undo_step st) = undo_step st"
  by (simp add: undo_step_def undo_undo)

lemma undo_steps: "(undo_step ^^ Suc k) st = undo_step st"
proof (induction k)
  case 0
  show ?case by simp
next
  case (Suc k)
  have "(undo_step ^^ Suc (Suc k)) st = undo_step ((undo_step ^^ Suc k) st)" by simp
  also have "\<dots> = undo_step (undo_step st)" by (simp only: Suc.IH)
  finally show ?case by (simp only: undo_step_twice)
qed

section \<open>Undo\<close>

text \<open>
  C1: an operation is constructed on the scene \<open>sc0\<close>, redone (on any scene, in any mode,
  whether redo returns or raises) and undone: the node's local transformation is then
  the one the node had in \<open>sc0\<close>, at construction.
\<close>

theorem undo_after_redo_restores_snapshot:
  "getLocalTransformation
     (undo (fst (after (redo (ScaleOperation_init sc0 node scl kw) sc)))
           (snd (after (redo (ScaleOperation_init sc0 node scl kw) sc))) node)
   = getLocalTransformation (sc0 node)"
proof -
  let ?op = "ScaleOperation_init sc0 node scl kw"
  have k: "op_node (fst (redo_step (?op, sc))) = op_node ?op \<and>
           op_old_transformation (fst (redo_step (?op, sc))) = op_old_transformation ?op"
    using redo_step_keeps [of "(?op, sc)"] by simp
  have n: "op_node ?op = node"
    and t: "op_old_transformation ?op = getLocalTransformation (sc0 node)"
    by (simp_all add: ScaleOperation_init_def)
  let ?op' = "fst (after (redo ?op sc))"
  have "getLocalTransformation (undo ?op' (snd (after (redo ?op sc))) (op_node ?op'))
          = op_old_transformation ?op'"
    by (rule undo_reads_back)
  with k n t show ?thesis by (simp add: redo_step_def)
qed

theorem undo_after_redo_restores_snapshot_witness:
  "getLocalTransformation
     (undo (fst (after (redo (ScaleOperation_init (plain_scene (Vector 5 0 0) (Vector 2 1 1)) 0
                                (Vector 1 1 1) (relative_kwargs True))
                             (plain_scene (Vector 5 0 0) (Vector 2 1 1)))))
           (snd (after (redo (ScaleOperation_init (plain_scene (Vector 5 0 0) (Vector 2 1 1)) 0
                                (Vector 1 1 1) (relative_kwargs True))
                             (plain_scene (Vector 5 0 0) (Vector 2 1 1))))) 0)
   = \<lparr>t_position = Vector 5 0 0, t_orientation = (0, 0, 0, 1), t_scale = Vector 2 1 1\<rparr>"
  using undo_after_redo_restores_snapshot
    [of "plain_scene (Vector 5 0 0) (Vector 2 1 1)" 0 "Vector 1 1 1" "relative_kwargs True"
        "plain_scene (Vector 5 0 0) (Vector 2 1 1)"]
  by (simp add: plain_scene_def plain_node_def getLocalTransformation_def)

text \<open>
  C10: after any number \<open>m\<close> of redos, in any mode and with any pivot and snap setting,
  undoing \<open>Suc k\<close> times leaves the operation and the scene as undoing once does, and
  the node's local transformation is then the operation's snapshot.
\<close>

theorem undo_idempotent:
  "(undo_step ^^ Suc k) ((redo_step ^^ m) (op, sc)) = undo_step ((redo_step ^^ m) (op, sc)) \<and>
   getLocalTransformation (snd (undo_step ((redo_step ^^ m) (op, sc))) (op_node op))
     = op_old_transformation op"
proof
  show "(undo_step ^^ Suc k) ((redo_step ^^ m) (op, sc)) = undo_step ((redo_step ^^ m) (op, sc))"
    by (rule undo_steps)
  let ?st = "(redo_step ^^ m) (op, sc)"
  have k: "op_node (fst ?st) = op_node op \<and>
           op_old_transformation (fst ?st) = op_old_transformation op"
    using redo_steps_keep [of m "(op, sc)"] by simp
  have "getLocalTransformation (undo (fst ?st) (snd ?st) (op_node (fst ?st)))
          = op_old_transformation (fst ?st)"
    by (rule undo_reads_back)
  with k show "getLocalTransformation (snd (undo_step ?st) (op_node op))
                 = op_old_transformation op"
    by (simp add: undo_step_def)
qed

section \<open>Adding to the current scale\<close>

text \<open>
  Line 47: with \<open>add_scale\<close> set and \<open>set_scale\<close> not, redo returns, keeps the operation and
  sets the node's scale to the sum of its current scale and the scale vector; neither
  snap nor floor is applied.
\<close>

lemma add_redo_step:
  assumes "\<not> op_set_scale op" and "op_add_scale op"
  shows "redo_step (op, sc) =
           (op, sc(op_node op := setScale (sc (op_node op))
                                   (vec_add (getScale (sc (op_node op))) (op_scale op)) Local))"
  using assms by (simp add: redo_step_def redo_def after_def Let_def)

section \<open>The relative branch\<close>

lemma fix_direction_uniform:
  assumes "vx (op_scale op) = vy (op_scale op)" and "vy (op_scale op) = vz (op_scale op)"
    and "vx (getScale n) + vy (getScale n) + vz (getScale n) \<noteq> 0"
  shows "fix_direction op n =
     Inr (op\<lparr>op_scale := vec_mul (op_scale op)
            (vec_smul (1 / (vx (getScale n) + vy (getScale n) + vz (getScale n)) * 3)
                      (getScale n))\<rparr>)"
  using assms by (simp add: fix_direction_def py_div_def Let_def)

lemma redo_relative_scale_after:
  assumes "fix_direction op n = Inr op1" and "n = sc (op_node op)"
  shows "op_scale (fst (after (redo_relative op sc))) = op_scale op1"
  using assms by (simp add: redo_relative_def after_def Let_def split: sum.splits)

text \<open>
  C7, as the code has it: in relative mode, for a scale vector with three equal
  components and a current scale whose components do not sum to zero, redo first
  replaces the scale vector by itself times \<open>((1 / (x + y + z)) * 3)\<close> times the current
  scale, component-wise, where \<open>x\<close>, \<open>y\<close>, \<open>z\<close> are the components of the current scale; the
  operation keeps this vector whether the rest of redo returns or raises. From the
  scale \<open>(2, 1, 1)\<close> the uniform delta \<open>(1, 1, 1)\<close> gives the scale \<open>(7/2, 7/4, 7/4)\<close>, which is
  not uniform.
\<close>

theorem uniform_scale_renormalised:
  "(relative_mode op \<and> vx (op_scale op) = vy (op_scale op) \<and>
    vy (op_scale op) = vz (op_scale op) \<and>
    vx (getScale (sc (op_node op))) + vy (getScale (sc (op_node op)))
      + vz (getScale (sc (op_node op))) \<noteq> 0 \<longrightarrow>
    op_scale (fst (after (redo op sc)))
      = vec_mul (op_scale op)
          (vec_smul (1 / (vx (getScale (sc (op_node op))) + vy (getScale (sc (op_node op)))
                            + vz (getScale (sc (op_node op)))) * 3)
                    (getScale (sc (op_node op))))) \<and>
   (let r = getScale (snd (after (redo
              (ScaleOperation_init (plain_scene (Vector 0 0 0) (Vector 2 1 1)) 0 (Vector 1 1 1)
                 (relative_kwargs False))
              (plain_scene (Vector 0 0 0) (Vector 2 1 1)))) 0)
    in r = Vector (7 / 2) (7 / 4) (7 / 4) \<and> \<not> (vz r = vy r \<and> vy r = vx r))"
proof (intro conjI impI)
  let ?n = "sc (op_node op)"
  let ?t = "vx (getScale ?n) + vy (getScale ?n) + vz (getScale ?n)"
  assume a: "relative_mode op \<and> vx (op_scale op) = vy (op_scale op) \<and>
             vy (op_scale op) = vz (op_scale op) \<and> ?t \<noteq> 0"
  have r: "redo op sc = redo_relative op sc" using a by (simp add: redo_relative_mode)
  have "fix_direction op ?n =
        Inr (op\<lparr>op_scale := vec_mul (op_scale op) (vec_smul (1 / ?t * 3) (getScale ?n))\<rparr>)"
    using a by (intro fix_direction_uniform) simp_all
  then have "op_scale (fst (after (redo_relative op sc)))
      = op_scale (op\<lparr>op_scale := vec_mul (op_scale op) (vec_smul (1 / ?t * 3) (getScale ?n))\<rparr>)"
    by (rule redo_relative_scale_after) simp
  with r show "op_scale (fst (after (redo op sc)))
      = vec_mul (op_scale op) (vec_smul (1 / ?t * 3) (getScale ?n))"
    by simp
next
  have "getScale (snd (after (redo
       (ScaleOperation_init (plain_scene (Vector 0 0 0) (Vector 2 1 1)) 0 (Vector 1 1 1)
          (relative_kwargs False))
       (plain_scene (Vector 0 0 0) (Vector 2 1 1)))) 0) = Vector (7 / 2) (7 / 4) (7 / 4)"
    by (simp add: eval_defs)
  then show "let r = getScale (snd (after (redo
              (ScaleOperation_init (plain_scene (Vector 0 0 0) (Vector 2 1 1)) 0 (Vector 1 1 1)
                 (relative_kwargs False))
              (plain_scene (Vector 0 0 0) (Vector 2 1 1)))) 0)
    in r = Vector (7 / 2) (7 / 4) (7 / 4) \<and> \<not> (vz r = vy r \<and> vy r = vx r)"
    by (simp add: Let_def)
qed

theorem uniform_scale_renormalised_witness:
  "op_scale (fst (after (redo
       (ScaleOperation_init (plain_scene (Vector 0 0 0) (Vector 2 1 1)) 0 (Vector 1 1 1)
          (relative_kwargs False))
       (plain_scene (Vector 0 0 0) (Vector 2 1 1))))) = Vector (3 / 2) (3 / 4) (3 / 4)"
  using uniform_scale_renormalised
    [of "ScaleOperation_init (plain_scene (Vector 0 0 0) (Vector 2 1 1)) 0 (Vector 1 1 1)
          (relative_kwargs False)" "plain_scene (Vector 0 0 0) (Vector 2 1 1)"]
  by (simp add: relative_mode_def ScaleOperation_init_def relative_kwargs_def no_kwargs_def
      kwargs_get_def plain_scene_def plain_node_def getScale_def vec_mul_def vec_smul_def Let_def)

text \<open>
  C7 as stated fails where the components of the current scale sum to zero: on the
  mirrored node of scale \<open>(-2, 1, 1)\<close> the uniform delta \<open>(1, 1, 1)\<close> makes line 52 divide by
  zero, so redo raises and the scale vector and the node are as before the call.
\<close>

theorem zero_sum_scale_counterexample:
  "relative_mode (ScaleOperation_init (plain_scene (Vector 0 0 0) (Vector (- 2) 1 1)) 0
                    (Vector 1 1 1) (relative_kwargs False)) \<and>
   redo (ScaleOperation_init (plain_scene (Vector 0 0 0) (Vector (- 2) 1 1)) 0 (Vector 1 1 1)
           (relative_kwargs False))
        (plain_scene (Vector 0 0 0) (Vector (- 2) 1 1))
     = Inl (ZeroDivisionError,
            ScaleOperation_init (plain_scene (Vector 0 0 0) (Vector (- 2) 1 1)) 0 (Vector 1 1 1)
              (relative_kwargs False),
            plain_scene (Vector 0 0 0) (Vector (- 2) 1 1)) \<and>
   op_scale (fst (after (redo
       (ScaleOperation_init (plain_scene (Vector 0 0 0) (Vector (- 2) 1 1)) 0 (Vector 1 1 1)
          (relative_kwargs False))
       (plain_scene (Vector 0 0 0) (Vector (- 2) 1 1))))) = Vector 1 1 1"
  by (simp add: eval_defs)

lemma redo_relative_returns:
  assumes "redo_relative op sc = Inr (op', sc')"
  shows "\<exists>f. fix_direction op (sc (op_node op)) = Inr op' \<and>
             normalise (combine (getScale (sc (op_node op))) (op_scale op'))
                       (getScale (sc (op_node op))) = Inr f \<and>
             sc' = sc(op_node op :=
                     setScale (scale_around (sc (op_node op)) (op_scale_around_point op') f)
                              (new_scale op' f (sc (op_node op))) World)"
  using assms by (auto simp: redo_relative_def Let_def split: sum.splits)

lemma enforce_min_axis_floor:
  assumes "0 < m"
  shows "m \<le> \<bar>enforce_min_axis m v\<bar>"
    and "0 \<le> v \<and> v < m \<longrightarrow> enforce_min_axis m v = m"
    and "- m < v \<and> v < 0 \<longrightarrow> enforce_min_axis m v = - m"
    and "m \<le> \<bar>v\<bar> \<longrightarrow> enforce_min_axis m v = v"
    and "v \<noteq> 0 \<longrightarrow> sgn (enforce_min_axis m v) = sgn v"
  using assms by (auto simp: enforce_min_axis_def Let_def sgn_if)

lemma enforce_min_sel:
  "vx (enforce_min m v) = enforce_min_axis m (vx v)"
  "vy (enforce_min m v) = enforce_min_axis m (vy v)"
  "vz (enforce_min m v) = enforce_min_axis m (vz v)"
  by (simp_all add: enforce_min_def)

subsection \<open>The minimum scale\<close>

text \<open>
  C2, as the code has it: in relative mode, after a redo that returns, the floor is
  applied to the snapped scale, so it comes after the snap and overrides it. On each
  axis the result has magnitude at least 0.01; a value in \<open>(0, 0.01)\<close> before the floor,
  and a zero on an axis whose scale was positive before redo, becomes 0.01; a value in
  \<open>(-0.01, 0)\<close> becomes -0.01; a value of magnitude at least 0.01 is kept, and a value that
  is not zero keeps its sign.
\<close>

theorem relative_redo_min_scale:
  assumes "relative_mode op" and "op_min_scale op = 0.01"
    and "redo op sc = Inr (op', sc')"
  shows "\<exists>f pre.
     normalise (combine (getScale (sc (op_node op))) (op_scale op'))
               (getScale (sc (op_node op))) = Inr f \<and>
     pre = snap_scale (op_snap op) f
             (getScale (scale_around (sc (op_node op)) (op_scale_around_point op) f)) \<and>
     (\<forall>axis \<in> {vx, vy, vz}.
        0.01 \<le> \<bar>axis (getScale (sc' (op_node op)))\<bar> \<and>
        (0 < axis pre \<and> axis pre < 0.01 \<longrightarrow> axis (getScale (sc' (op_node op))) = 0.01) \<and>
        (axis pre = 0 \<and> 0 < axis (getScale (sc (op_node op))) \<longrightarrow>
           axis (getScale (sc' (op_node op))) = 0.01) \<and>
        (- 0.01 < axis pre \<and> axis pre < 0 \<longrightarrow> axis (getScale (sc' (op_node op))) = - 0.01) \<and>
        (0.01 \<le> \<bar>axis pre\<bar> \<longrightarrow> axis (getScale (sc' (op_node op))) = axis pre) \<and>
        (axis pre \<noteq> 0 \<longrightarrow> sgn (axis (getScale (sc' (op_node op)))) = sgn (axis pre)))"
proof -
  let ?n = "sc (op_node op)"
  from assms have "redo_relative op sc = Inr (op', sc')" by (simp add: redo_relative_mode)
  then obtain f where fd: "fix_direction op ?n = Inr op'"
    and nf: "normalise (combine (getScale ?n) (op_scale op')) (getScale ?n) = Inr f"
    and sc': "sc' = sc(op_node op :=
                     setScale (scale_around ?n (op_scale_around_point op') f)
                              (new_scale op' f ?n) World)"
    using redo_relative_returns by blast
  from fix_direction_keeps [OF fd]
  have k: "op_snap op' = op_snap op" "op_min_scale op' = op_min_scale op"
          "op_scale_around_point op' = op_scale_around_point op"
    by (metis ScaleOperation.select_convs ScaleOperation.surjective
        ScaleOperation.update_convs(8))+
  let ?pre = "snap_scale (op_snap op) f (getScale (scale_around ?n (op_scale_around_point op) f))"
  have res: "getScale (sc' (op_node op)) = enforce_min 0.01 ?pre"
    using sc' k assms(2) by (simp add: getScale_setScale new_scale_def)
  have m: "(0::real) < 0.01" by simp
  have ax: "\<forall>axis \<in> {vx, vy, vz}.
        0.01 \<le> \<bar>axis (enforce_min 0.01 ?pre)\<bar> \<and>
        (0 < axis ?pre \<and> axis ?pre < 0.01 \<longrightarrow> axis (enforce_min 0.01 ?pre) = 0.01) \<and>
        (axis ?pre = 0 \<and> 0 < axis (getScale ?n) \<longrightarrow> axis (enforce_min 0.01 ?pre) = 0.01) \<and>
        (- 0.01 < axis ?pre \<and> axis ?pre < 0 \<longrightarrow> axis (enforce_min 0.01 ?pre) = - 0.01) \<and>
        (0.01 \<le> \<bar>axis ?pre\<bar> \<longrightarrow> axis (enforce_min 0.01 ?pre) = axis ?pre) \<and>
        (axis ?pre \<noteq> 0 \<longrightarrow> sgn (axis (enforce_min 0.01 ?pre)) = sgn (axis ?pre))"
    using enforce_min_axis_floor [OF m] by (simp only: ball_simps enforce_min_sel) force
  show ?thesis
    using nf ax unfolding res by (intro exI [of _ f] exI [of _ ?pre]) (simp only: simp_thms)
qed

theorem relative_redo_min_scale_witness:
  "relative_mode (ScaleOperation_init (plain_scene (Vector 0 0 0) (Vector 1 1 1)) 0
                    (Vector (- 0.998) 0 0) (relative_kwargs False)) \<and>
   redo (ScaleOperation_init (plain_scene (Vector 0 0 0) (Vector 1 1 1)) 0
           (Vector (- 0.998) 0 0) (relative_kwargs False))
        (plain_scene (Vector 0 0 0) (Vector 1 1 1))
     = Inr (ScaleOperation_init (plain_scene (Vector 0 0 0) (Vector 1 1 1)) 0
              (Vector (- 0.998) 0 0) (relative_kwargs False),
            (plain_scene (Vector 0 0 0) (Vector 1 1 1))
              (0 := plain_node (Vector 0 0 0) (Vector 0.01 1 1))) \<and>
   0.01 \<le> \<bar>vx (getScale (((plain_scene (Vector 0 0 0) (Vector 1 1 1))
              (0 := plain_node (Vector 0 0 0) (Vector 0.01 1 1))) 0))\<bar>"
proof -
  let ?sc = "plain_scene (Vector 0 0 0) (Vector 1 1 1)"
  let ?op = "ScaleOperation_init ?sc 0 (Vector (- 0.998) 0 0) (relative_kwargs False)"
  let ?sc' = "?sc(0 := plain_node (Vector 0 0 0) (Vector 0.01 1 1))"
  have h1: "relative_mode ?op" by (simp add: eval_defs)
  have h2: "op_min_scale ?op = 0.01" by (simp add: ScaleOperation_init_def)
  have h3: "redo ?op ?sc = Inr (?op, ?sc')" by (simp add: eval_defs)
  have n: "op_node ?op = 0" by (simp add: ScaleOperation_init_def)
  from relative_redo_min_scale [OF h1 h2 h3]
  have "0.01 \<le> \<bar>vx (getScale (?sc' 0))\<bar>" unfolding n by blast
  with h1 h3 show ?thesis by blast
qed

text \<open>
  C2 as stated fails at zero, which lies in \<open>(-0.01, 0]\<close> as well as in \<open>[0, 0.01)\<close>: with
  snap, on the axis of scale 1 of the node of scale \<open>(1, 1, 1)\<close>, the delta \<open>(-0.996, 0, 0)\<close>
  gives 0.004, which the snap rounds to 0, and the floor makes it 0.01, not -0.01.
\<close>

theorem floor_of_zero_counterexample:
  "relative_mode (ScaleOperation_init (plain_scene (Vector 0 0 0) (Vector 1 1 1)) 0
                    (Vector (- 0.996) 0 0) (relative_kwargs True)) \<and>
   normalise (combine (Vector 1 1 1) (Vector (- 0.996) 0 0)) (Vector 1 1 1)
     = Inr (Vector 0.004 1 1) \<and>
   - 0.01 < vx (snap_scale True (Vector 0.004 1 1)
                 (getScale (scale_around (plain_node (Vector 0 0 0) (Vector 1 1 1))
                              (Vector 0 0 0) (Vector 0.004 1 1)))) \<and>
   vx (snap_scale True (Vector 0.004 1 1)
         (getScale (scale_around (plain_node (Vector 0 0 0) (Vector 1 1 1))
                      (Vector 0 0 0) (Vector 0.004 1 1)))) \<le> 0 \<and>
   redo (ScaleOperation_init (plain_scene (Vector 0 0 0) (Vector 1 1 1)) 0
           (Vector (- 0.996) 0 0) (relative_kwargs True))
        (plain_scene (Vector 0 0 0) (Vector 1 1 1))
     = Inr (ScaleOperation_init (plain_scene (Vector 0 0 0) (Vector 1 1 1)) 0
              (Vector (- 0.996) 0 0) (relative_kwargs True),
            (plain_scene (Vector 0 0 0) (Vector 1 1 1))
              (0 := plain_node (Vector 0 0 0) (Vector 0.01 1 1))) \<and>
   vx (getScale (plain_node (Vector 0 0 0) (Vector 0.01 1 1))) \<noteq> - 0.01"
  by (simp add: eval_defs)

text \<open>
  C8: a mirrored axis does not always stay mirrored. With snap, the scale \<open>(-1, 1, 1)\<close> and
  the delta \<open>(-0.996, 0, 0)\<close> give -0.004 on the first axis; the snap rounds it to 0, the
  test for a value that is not negative catches the 0, and the axis ends at +0.01.
\<close>

theorem mirrored_axis_flips:
  "vx (getScale (plain_scene (Vector 0 0 0) (Vector (- 1) 1 1) 0)) = - 1 \<and>
   redo (ScaleOperation_init (plain_scene (Vector 0 0 0) (Vector (- 1) 1 1)) 0
           (Vector (- 0.996) 0 0) (relative_kwargs True))
        (plain_scene (Vector 0 0 0) (Vector (- 1) 1 1))
     = Inr (ScaleOperation_init (plain_scene (Vector 0 0 0) (Vector (- 1) 1 1)) 0
              (Vector (- 0.996) 0 0) (relative_kwargs True),
            (plain_scene (Vector 0 0 0) (Vector (- 1) 1 1))
              (0 := plain_node (Vector 0 0 0) (Vector 0.01 1 1))) \<and>
   vx (getScale (plain_node (Vector 0 0 0) (Vector 0.01 1 1))) = 0.01"
  by (simp add: eval_defs)

subsection \<open>A current scale of zero\<close>

text \<open>
  C3: the test before the division is on the combined magnitude, not on the current
  scale. With the current scale \<open>(0, 1, 1)\<close> and the delta \<open>(1, 2, 3)\<close> the magnitude on the
  first axis is -1, so redo divides it by the current scale 0 and raises; the operation
  and the scene are as before the call.
\<close>

theorem zero_scale_axis_divides:
  "vx (getScale (plain_scene (Vector 0 0 0) (Vector 0 1 1) 0)) = 0 \<and>
   redo (ScaleOperation_init (plain_scene (Vector 0 0 0) (Vector 0 1 1)) 0 (Vector 1 2 3)
           (relative_kwargs False))
        (plain_scene (Vector 0 0 0) (Vector 0 1 1))
     = Inl (ZeroDivisionError,
            ScaleOperation_init (plain_scene (Vector 0 0 0) (Vector 0 1 1)) 0 (Vector 1 2 3)
              (relative_kwargs False),
            plain_scene (Vector 0 0 0) (Vector 0 1 1))"
  by (simp add: eval_defs)

section \<open>mergeWith\<close>

lemma mergeWith_rejects:
  "mergeWith sc self OtherOperation = None"
  "op_node oth \<noteq> op_node self \<Longrightarrow> mergeWith sc self (ScaleOp oth) = None"
  "op_set_scale oth \<Longrightarrow> \<not> op_set_scale self \<Longrightarrow> mergeWith sc self (ScaleOp oth) = None"
  "op_add_scale oth \<Longrightarrow> \<not> op_add_scale self \<Longrightarrow> mergeWith sc self (ScaleOp oth) = None"
  by (simp_all add: mergeWith_def)

lemma mergeWith_carries:
  assumes "mergeWith sc self other = Some m"
  shows "op_node m = op_node self" and "op_scale m = op_scale self"
    and "\<exists>oth. other = ScaleOp oth \<and> op_old_transformation m = op_old_transformation oth"
    and "\<not> op_set_scale m" and "\<not> op_add_scale m" and "\<not> op_relative_scale m"
  using assms
  by (auto simp: mergeWith_def ScaleOperation_init_def no_kwargs_def kwargs_get_def
      split: operation.splits if_splits)

text \<open>
  C4: the merged operation is built without keyword arguments. Merging an operation
  with \<open>set_scale\<close> into an older one gives an operation with the newer scale vector and the
  older snapshot, but with \<open>set_scale\<close> (and every other flag) off.
\<close>

theorem merged_operation_drops_mode:
  "op_set_scale (ScaleOperation_init (plain_scene (Vector 0 0 0) (Vector 3 3 3)) 0
                   (Vector 2 2 2) (no_kwargs\<lparr>kw_set_scale := Some True\<rparr>)) \<and>
   mergeWith (plain_scene (Vector 0 0 0) (Vector 3 3 3))
     (ScaleOperation_init (plain_scene (Vector 0 0 0) (Vector 3 3 3)) 0
        (Vector 2 2 2) (no_kwargs\<lparr>kw_set_scale := Some True\<rparr>))
     (ScaleOp (ScaleOperation_init (plain_scene (Vector 0 0 0) (Vector 1 1 1)) 0
        (Vector 3 3 3) (no_kwargs\<lparr>kw_set_scale := Some True\<rparr>)))
   = Some \<lparr>op_node = 0,
           op_old_transformation = getLocalTransformation (plain_node (Vector 0 0 0) (Vector 1 1 1)),
           op_set_scale = False, op_add_scale = False, op_relative_scale = False,
           op_scale_around_point = Vector 0 0 0, op_snap = False,
           op_scale = Vector 2 2 2, op_min_scale = 0.01\<rparr>"
  by (simp add: eval_defs)

text \<open>
  C5: a mismatch of the flags is refused in one direction only. An operation with
  \<open>set_scale\<close> merges with an older operation on the same node that does not have it.
\<close>

theorem merge_accepts_mismatched_set_scale:
  "op_set_scale (ScaleOperation_init (plain_scene (Vector 0 0 0) (Vector 3 3 3)) 0
                   (Vector 2 2 2) (no_kwargs\<lparr>kw_set_scale := Some True\<rparr>)) \<and>
   \<not> op_set_scale (ScaleOperation_init (plain_scene (Vector 0 0 0) (Vector 1 1 1)) 0
                   (Vector 3 3 3) no_kwargs) \<and>
   mergeWith (plain_scene (Vector 0 0 0) (Vector 3 3 3))
     (ScaleOperation_init (plain_scene (Vector 0 0 0) (Vector 3 3 3)) 0
        (Vector 2 2 2) (no_kwargs\<lparr>kw_set_scale := Some True\<rparr>))
     (ScaleOp (ScaleOperation_init (plain_scene (Vector 0 0 0) (Vector 1 1 1)) 0
        (Vector 3 3 3) no_kwargs))
   \<noteq> None"
  by (simp add: eval_defs)

end
